theory Spec2Isabelle
  imports Complex_Main
begin

section \<open>Spatial occupancy maps (opexebo): the data model\<close>

text \<open>
  The two functions verified here are \<^verbatim>\<open>accumulatespatial\<close>
  (\<^verbatim>\<open>opexebo/general/accumulatespatial.py\<close>) and \<^verbatim>\<open>spatial_occupancy\<close>
  (\<^verbatim>\<open>opexebo/analysis/spatialOccupancy.py\<close>).

  Numbers: a float64 value is the real number it holds. The source's docstring states
  that positions have been curated to remove NaNs before the call, so a coordinate is a
  real number, \<^verbatim>\<open>np.ma.masked_invalid\<close> masks nothing and \<^verbatim>\<open>np.nanmin\<close>,
  \<^verbatim>\<open>np.nanmax\<close> are the plain minimum and maximum. Sums, differences and products
  are taken exact. The one quotient whose rounding decides a whole number, the quotient
  \<^verbatim>\<open>arena_size / bin_width\<close> of line 81 under \<^verbatim>\<open>np.ceil\<close>, is not: float64
  division rounds (3 / 0.3 is 10 in float64, while the exact quotient of the two float64
  operands is above 10). The float64 division is therefore a parameter \<open>fdiv\<close> of the
  model, about which nothing is assumed; it is applied to a divisor that is not zero.

  numpy: the repository pins no release. The model follows the releases current when the
  code was written (2019, numpy 1.15 to 1.17). There \<^verbatim>\<open>np.histogram\<close> refuses a float
  as its number of bins with a TypeError, \<^verbatim>\<open>np.histogram2d\<close> accepts an array of
  floats holding whole numbers (with a deprecation warning; from numpy 1.18 on it raises a
  TypeError as well), and the truth value of an empty array is False.

  Every \<^verbatim>\<open>raise\<close> of the source, and every exception of the Python and numpy
  operations it calls, is a value of type \<open>error\<close>.
\<close>

datatype value_error =
    UnpackShape
      \<comment> \<open>\<^verbatim>\<open>a, b = arr.shape\<close> on an array whose rank is not 2\<close>
  | PositionColumns nat
      \<comment> \<open>"Positions array has the wrong number of columns (%d)"\<close>
  | SpeedColumns
      \<comment> \<open>"Speed array has the wrong number of columns"\<close>
  | SpeedSamples
      \<comment> \<open>"Speed array does not have the same number of samples as Positions"\<close>
  | PosDimensions nat
      \<comment> \<open>"pos should have either 1 or 2 dimensions. You have provided %d dimensions."\<close>
  | LimitsType
      \<comment> \<open>"You must provide an array-like 'limits' value ..."\<close>
  | LimitsLength2D nat
      \<comment> \<open>"You must provide a 4-element 'limits' value for a 2D map. You provided %d elements"\<close>
  | LimitsLength1D nat
      \<comment> \<open>"You must provide a 2-element 'limits' value for a 1D map. You provided %d elements"\<close>
  | ArenaSizeInvalid
      \<comment> \<open>raised by the arena-size validator\<close>
  | EmptyReduction
      \<comment> \<open>numpy: minimum or maximum of an array with no element\<close>
  | AmbiguousTruth
      \<comment> \<open>numpy: "The truth value of an array with more than one element is ambiguous"\<close>
  | BinsNotPositive
      \<comment> \<open>numpy: a histogram asked for fewer than one bin\<close>
  | RangeOrder
      \<comment> \<open>numpy: "max must be larger than min in range parameter"\<close>
  | BinsNotMonotonic
      \<comment> \<open>numpy: "`bins` must increase monotonically, when an array"\<close>
  | BinsNotFinite
      \<comment> \<open>a NaN where a number of bins is needed: "cannot convert float NaN to integer"\<close>

datatype error =
    ValueError value_error
  | KeyError string
  | IndexError
  | ZeroDivisionError
  | TypeError
      \<comment> \<open>numpy: "`bins` must be an integer, a string, or an array"\<close>
  | OverflowError
      \<comment> \<open>"cannot convert float infinity to integer"\<close>
  | UnboundLocalError
  | NotImplementedError string

definition and_then :: "error + 'a \<Rightarrow> ('a \<Rightarrow> error + 'b) \<Rightarrow> error + 'b" where
  \<comment> \<open>sequencing: an exception ends the computation\<close>
  "and_then m f = (case m of Inl e \<Rightarrow> Inl e | Inr x \<Rightarrow> f x)"

text \<open>
  A numpy array is its shape and its elements in row-major order. A well-formed array has
  as many elements as the product of its shape.
\<close>

record ndarray =
  nd_shape :: "nat list"
  nd_elems :: "real list"

definition wf_ndarray :: "ndarray \<Rightarrow> bool" where
  "wf_ndarray a = (length (nd_elems a) = prod_list (nd_shape a))"

definition ndim :: "ndarray \<Rightarrow> nat" where
  "ndim a = length (nd_shape a)"

definition size_of :: "ndarray \<Rightarrow> nat" where
  "size_of a = prod_list (nd_shape a)"

definition array2 :: "real list list \<Rightarrow> ndarray" where
  \<comment> \<open>\<^verbatim>\<open>np.array([r0, r1, ...])\<close> for rows of equal length\<close>
  "array2 rs = \<lparr>nd_shape = [length rs, (case rs of [] \<Rightarrow> 0 | r # _ \<Rightarrow> length r)],
               nd_elems = concat rs\<rparr>"

definition array1 :: "real list \<Rightarrow> ndarray" where
  "array1 xs = \<lparr>nd_shape = [length xs], nd_elems = xs\<rparr>"

definition unpack_shape :: "ndarray \<Rightarrow> error + nat \<times> nat" where
  \<comment> \<open>\<^verbatim>\<open>dims, num_samples = pos.shape\<close>\<close>
  "unpack_shape a =
     (case nd_shape a of [d, n] \<Rightarrow> Inr (d, n) | _ \<Rightarrow> Inl (ValueError UnpackShape))"

definition row :: "ndarray \<Rightarrow> nat \<Rightarrow> error + real list" where
  \<comment> \<open>\<^verbatim>\<open>a[i, :]\<close> on an array of rank 2\<close>
  "row a i =
     (case nd_shape a of
        [d, n] \<Rightarrow> if i < d then Inr (take n (drop (i * n) (nd_elems a))) else Inl IndexError
      | _ \<Rightarrow> Inl IndexError)"

definition select :: "'a list \<Rightarrow> bool list \<Rightarrow> 'a list" where
  \<comment> \<open>boolean-mask indexing \<^verbatim>\<open>xs[keep]\<close>, the mask as long as \<open>xs\<close>\<close>
  "select xs keep = map fst (filter snd (zip xs keep))"

text \<open>
  Histograms and the masked map are one- or two-dimensional; a two-dimensional grid is a
  list of rows.
\<close>

datatype 'a grid = G1 "'a list" | G2 "'a list list"

datatype edges =
    Edges1 "real list"
  | Edges2 "real list" "real list"
      \<comment> \<open>\<^verbatim>\<open>np.array([a, b])\<close>: \<open>Edges2 a b\<close> has \<open>a\<close> at index 0 and \<open>b\<close> at index 1\<close>

fun cells :: "'a grid \<Rightarrow> 'a list" where
  "cells (G1 xs) = xs"
| "cells (G2 rs) = concat rs"

definition count_nonzero :: "nat grid \<Rightarrow> nat" where
  "count_nonzero h = length (filter (\<lambda>c. c \<noteq> 0) (cells h))"

definition grid_size :: "'a grid \<Rightarrow> nat" where
  "grid_size h = length (cells h)"

definition grid_sum :: "nat grid \<Rightarrow> nat" where
  "grid_sum h = sum_list (cells h)"

record masked_array =
  ma_data :: "real grid"
  ma_mask :: "bool grid"

subsection \<open>The keyword arguments\<close>

text \<open>
  The keyword dictionary has a fixed set of keys; a key that is absent is \<open>None\<close>.
  The arena size is a float or a pair of floats. The limits carry their Python type,
  which the source inspects: a tuple, a list, a one-dimensional numpy array, or a value of
  any other type.
\<close>

datatype size_val = Scalar real | Tuple2 real real

datatype limits_val =
    LTuple "real list"
  | LList "real list"
  | LArray "real list"
  | LOther

record kwargs =
  kw_arena_shape :: "string option"
  kw_arena_size :: "size_val option"
  kw_bin_width :: "real option"
  kw_speed_cutoff :: "real option"
  kw_limits :: "limits_val option"
  kw_debug :: "bool option"

definition get :: "'a option \<Rightarrow> 'a \<Rightarrow> 'a" where
  \<comment> \<open>\<^verbatim>\<open>kwargs.get(key, default)\<close>\<close>
  "get v d = (case v of None \<Rightarrow> d | Some x \<Rightarrow> x)"

text \<open>
  Modelled from the spec: the module \<^verbatim>\<open>opexebo.defaults\<close> is not among the sources.
  The spec gives the default bin width 2.5, the default speed cutoff 0 and the vocabulary
  of shape tags; the docstring of \<^verbatim>\<open>spatial_occupancy\<close> gives the same vocabulary
  and says that the shape defaults to rectangular.
\<close>

definition default_bin_width :: real where
  "default_bin_width = 5 / 2"

definition default_speed_cutoff :: real where
  "default_speed_cutoff = 0"

definition default_shape :: string where
  "default_shape = ''rectangular''"

definition shapes_square :: "string list" where
  "shapes_square = [''square'', ''rectangle'', ''rectangular'', ''rect'', ''s'', ''r'']"

definition shapes_circle :: "string list" where
  "shapes_circle = [''circ'', ''circular'', ''circle'', ''c'']"

definition shapes_linear :: "string list" where
  "shapes_linear = [''linear'', ''line'', ''l'']"

text \<open>
  Modelled from the spec: \<^verbatim>\<open>validatekeyword__arena_size\<close> is not among the sources.
  The spec says that it normalises a scalar or a pair to one extent per axis, confirms
  that the value matches the dimensionality, and raises an invalid-input error otherwise.
  It returns the extent (a scalar for one dimension, a pair for two) and whether the map
  is two-dimensional.
\<close>

definition validatekeyword__arena_size ::
  "size_val option \<Rightarrow> nat \<Rightarrow> error + size_val \<times> bool" where
  "validatekeyword__arena_size kwv provided_dimensions =
     (case kwv of
        None \<Rightarrow> Inl (ValueError ArenaSizeInvalid)
      | Some (Scalar s) \<Rightarrow>
          if provided_dimensions = 1 then Inr (Scalar s, False)
          else if provided_dimensions = 2 then Inr (Tuple2 s s, True)
          else Inl (ValueError ArenaSizeInvalid)
      | Some (Tuple2 a b) \<Rightarrow>
          if provided_dimensions = 2 then Inr (Tuple2 a b, True)
          else Inl (ValueError ArenaSizeInvalid))"

subsection \<open>The numpy operations the source calls\<close>

definition np_min :: "real list \<Rightarrow> error + real" where
  \<comment> \<open>\<^verbatim>\<open>np.min\<close>, \<^verbatim>\<open>np.nanmin\<close>: an empty array raises\<close>
  "np_min xs = (case xs of [] \<Rightarrow> Inl (ValueError EmptyReduction) | x # r \<Rightarrow> Inr (fold min r x))"

definition np_max :: "real list \<Rightarrow> error + real" where
  "np_max xs = (case xs of [] \<Rightarrow> Inl (ValueError EmptyReduction) | x # r \<Rightarrow> Inr (fold max r x))"

fun np_diff :: "real list \<Rightarrow> real list" where
  "np_diff (a # b # r) = (b - a) # np_diff (b # r)"
| "np_diff _ = []"

definition py_last :: "real list \<Rightarrow> error + real" where
  \<comment> \<open>\<^verbatim>\<open>time[-1]\<close>\<close>
  "py_last xs = (case xs of [] \<Rightarrow> Inl IndexError | _ \<Rightarrow> Inr (last xs))"

text \<open>
  The value of \<^verbatim>\<open>np.ceil\<close>: a float64 that holds a whole number, an infinity or a
  NaN. It is what the source passes as the number of bins, a scalar for one dimension and
  an array of two for two dimensions.
\<close>

datatype npfloat = Whole int | PosInf | NegInf | NaN

datatype bins_val = BScalar npfloat | BPair npfloat npfloat

text \<open>
  \<^verbatim>\<open>np.histogram2d\<close> with an array of two bin numbers and a range, axis by axis:
  numpy refuses a bin number below one, then a range whose maximum is below its minimum,
  and widens a range of width zero by one half on each side; \<^verbatim>\<open>np.linspace\<close> then
  converts the float bin number to an integer, which fails on an infinity or a NaN. The
  edges are \<open>bins + 1\<close> equally spaced values from the lower to the upper end of the
  range. A value is counted when it lies in the closed range; every bin is half-open except
  the last, which includes the upper end.
\<close>

definition outer_edges :: "real \<times> real \<Rightarrow> error + real \<times> real" where
  "outer_edges r =
     (case r of (first_edge, last_edge) \<Rightarrow>
        if first_edge > last_edge then Inl (ValueError RangeOrder)
        else if first_edge = last_edge then Inr (first_edge - 1 / 2, last_edge + 1 / 2)
        else Inr (first_edge, last_edge))"

definition linspace :: "real \<Rightarrow> real \<Rightarrow> nat \<Rightarrow> real list" where
  \<comment> \<open>\<^verbatim>\<open>np.linspace(lo, hi, n + 1)\<close>\<close>
  "linspace lo hi n = map (\<lambda>i. lo + real i * ((hi - lo) / real n)) [0..<n + 1]"

definition bin_index :: "real \<Rightarrow> real \<Rightarrow> nat \<Rightarrow> real \<Rightarrow> nat option" where
  "bin_index lo hi n v =
     (if v < lo \<or> hi < v then None
      else if v = hi then Some (n - 1)
      else Some (nat \<lfloor>(v - lo) * real n / (hi - lo)\<rfloor>))"

definition bins_positive :: "npfloat \<Rightarrow> error + unit" where
  \<comment> \<open>\<^verbatim>\<open>if bins[i] < 1: raise ValueError\<close>; the comparison is false on a NaN\<close>
  "bins_positive b =
     (case b of
        Whole k \<Rightarrow> if k < 1 then Inl (ValueError BinsNotPositive) else Inr ()
      | NegInf \<Rightarrow> Inl (ValueError BinsNotPositive)
      | PosInf \<Rightarrow> Inr ()
      | NaN \<Rightarrow> Inr ())"

definition bin_number :: "npfloat \<Rightarrow> error + nat" where
  \<comment> \<open>the conversion of the float bin number to an integer\<close>
  "bin_number b =
     (case b of
        Whole k \<Rightarrow> Inr (nat k)
      | NaN \<Rightarrow> Inl (ValueError BinsNotFinite)
      | PosInf \<Rightarrow> Inl OverflowError
      | NegInf \<Rightarrow> Inl OverflowError)"

definition np_histogram2d ::
  "real list \<Rightarrow> real list \<Rightarrow> bins_val \<Rightarrow> (real \<times> real) \<times> (real \<times> real) \<Rightarrow>
     error + nat list list \<times> real list \<times> real list" where
  \<comment> \<open>a scalar bin number serves both axes; the result is indexed by the bin of the first
      coordinate, then by that of the second\<close>
  "np_histogram2d xs ys bins rng =
     (let (bx, by) = (case bins of BScalar b \<Rightarrow> (b, b) | BPair b0 b1 \<Rightarrow> (b0, b1)) in
      and_then (bins_positive bx) (\<lambda>_.
      and_then (outer_edges (fst rng)) (\<lambda>(xlo, xhi).
      and_then (bin_number bx) (\<lambda>nx.
      and_then (bins_positive by) (\<lambda>_.
      and_then (outer_edges (snd rng)) (\<lambda>(ylo, yhi).
      and_then (bin_number by) (\<lambda>ny.
        Inr (map (\<lambda>i. map (\<lambda>j. length (filter (\<lambda>(x, y).
                 bin_index xlo xhi nx x = Some i \<and> bin_index ylo yhi ny y = Some j)
                 (zip xs ys))) [0..<ny]) [0..<nx],
             linspace xlo xhi nx, linspace ylo yhi ny))))))))"

text \<open>
  \<^verbatim>\<open>np.histogram\<close> with the same arguments. A scalar float as the number of bins is
  refused at once with a TypeError, whatever the data and the range: numpy asks for the
  integer with \<^verbatim>\<open>operator.index\<close>, which no float has. An array of two numbers is
  read as the two edges of one bin, and the range is then ignored (the source never passes
  one: the validator gives a scalar extent to a one-dimensional map).
\<close>

definition np_histogram ::
  "real list \<Rightarrow> bins_val \<Rightarrow> real \<times> real \<Rightarrow> error + nat list \<times> real list" where
  "np_histogram a bins rng =
     (case bins of
        BScalar b \<Rightarrow> Inl TypeError
      | BPair (Whole b0) (Whole b1) \<Rightarrow>
          if b0 > b1 then Inl (ValueError BinsNotMonotonic)
          else Inr ([length (filter (\<lambda>v. real_of_int b0 \<le> v \<and> v \<le> real_of_int b1) a)],
                    [real_of_int b0, real_of_int b1])
      | BPair _ _ \<Rightarrow> Inl (ValueError BinsNotFinite))"

section \<open>The Spatial Accumulator\<close>

definition ceil_quotient :: "(real \<Rightarrow> real \<Rightarrow> real) \<Rightarrow> real \<Rightarrow> real \<Rightarrow> npfloat" where
  \<comment> \<open>one element of \<^verbatim>\<open>np.ceil(arena_size / bin_width)\<close> on a numpy array: the ceiling of
      the float64 quotient; a division by zero gives an infinity, or a NaN for 0 / 0, and
      raises nothing\<close>
  "ceil_quotient fdiv a bin_width =
     (if bin_width = 0 then (if 0 < a then PosInf else if a < 0 then NegInf else NaN)
      else Whole \<lceil>fdiv a bin_width\<rceil>)"

definition np_ceil_div ::
  "(real \<Rightarrow> real \<Rightarrow> real) \<Rightarrow> size_val \<Rightarrow> real \<Rightarrow> error + bins_val" where
  \<comment> \<open>line 81, \<^verbatim>\<open>np.ceil(arena_size / bin_width)\<close>. The extent of a one-dimensional map
      is a Python float, whose division by zero raises; that of a two-dimensional map is a
      numpy array, divided element by element\<close>
  "np_ceil_div fdiv arena_size bin_width =
     (case arena_size of
        Scalar s \<Rightarrow>
          if bin_width = 0 then Inl ZeroDivisionError
          else Inr (BScalar (Whole \<lceil>fdiv s bin_width\<rceil>))
      | Tuple2 a b \<Rightarrow>
          Inr (BPair (ceil_quotient fdiv a bin_width) (ceil_quotient fdiv b bin_width)))"

definition eq_None :: "limits_val option \<Rightarrow> error + bool" where
  \<comment> \<open>the test \<^verbatim>\<open>if limits == None\<close>: on a numpy array the comparison is elementwise, and
      the truth value of its result is an error when the array has more than one element.
      That of a one-element array is its element, False; that of an empty array is False
      in the numpy releases of the model (with a deprecation warning; numpy 2.2 and later
      raise on it)\<close>
  "eq_None limits =
     (case limits of
        None \<Rightarrow> Inr True
      | Some (LArray xs) \<Rightarrow>
          if length xs > 1 then Inl (ValueError AmbiguousTruth) else Inr False
      | Some _ \<Rightarrow> Inr False)"

fun items :: "limits_val option \<Rightarrow> real list" where
  "items (Some (LTuple xs)) = xs"
| "items (Some (LList xs)) = xs"
| "items (Some (LArray xs)) = xs"
| "items _ = []"

definition limits_2d ::
  "limits_val option \<Rightarrow> real list \<Rightarrow> real list \<Rightarrow> error + (real \<times> real) \<times> (real \<times> real)" where
  \<comment> \<open>lines 93 to 101 of \<^verbatim>\<open>accumulatespatial.py\<close>\<close>
  "limits_2d limits x y =
     and_then (eq_None limits) (\<lambda>is_none.
       if is_none then
         and_then (np_min x) (\<lambda>xmin. and_then (np_max x) (\<lambda>xmax.
         and_then (np_min y) (\<lambda>ymin. and_then (np_max y) (\<lambda>ymax.
           Inr ((xmin, xmax), (ymin, ymax))))))
       else
         let l = items limits in
         if length l \<noteq> 4 then Inl (ValueError (LimitsLength2D (length l)))
         else Inr ((l ! 0, l ! 1), (l ! 2, l ! 3)))"

definition in_range_2d :: "(real \<times> real) \<times> (real \<times> real) \<Rightarrow> real list \<Rightarrow> real list \<Rightarrow> bool list" where
  \<comment> \<open>lines 102 and 103\<close>
  "in_range_2d limits x y =
     map (\<lambda>(x, y). (x \<ge> fst (fst limits) \<and> x < snd (fst limits)) \<and>
                    (y \<ge> fst (snd limits) \<and> y < snd (snd limits))) (zip x y)"

definition limits_1d :: "limits_val option \<Rightarrow> real list \<Rightarrow> error + real \<times> real" where
  \<comment> \<open>lines 113 to 117\<close>
  "limits_1d limits x =
     and_then (eq_None limits) (\<lambda>is_none.
       if is_none then
         and_then (np_min x) (\<lambda>xmin. and_then (np_max x) (\<lambda>xmax. Inr (xmin, xmax)))
       else
         let l = items limits in
         if length l \<noteq> 2 then Inl (ValueError (LimitsLength1D (length l)))
         else Inr (l ! 0, l ! 1))"

definition in_range_1d :: "real \<times> real \<Rightarrow> real list \<Rightarrow> bool list" where
  \<comment> \<open>line 119\<close>
  "in_range_1d limits x = map (\<lambda>x. x \<ge> fst limits \<and> x < snd limits) x"

definition accumulatespatial ::
  "(real \<Rightarrow> real \<Rightarrow> real) \<Rightarrow> ndarray \<Rightarrow> kwargs \<Rightarrow> error + nat grid \<times> edges" where
  "accumulatespatial fdiv pos kwargs =
     and_then (unpack_shape pos) (\<lambda>(dims, num_samples).
     if dims \<notin> {1, 2} then Inl (ValueError (PosDimensions dims))
     else
       let bin_width = get (kw_bin_width kwargs) default_bin_width;
           arena_size = kw_arena_size kwargs;
           limits = kw_limits kwargs
       in
       if limits = Some LOther then Inl (ValueError LimitsType)
       else
         and_then (validatekeyword__arena_size arena_size dims) (\<lambda>(arena_size, is_2d).
         and_then (np_ceil_div fdiv arena_size bin_width) (\<lambda>num_bins.
         and_then (row pos 0) (\<lambda>x.
         if is_2d then
           and_then (row pos 1) (\<lambda>y.
           and_then (limits_2d limits x y) (\<lambda>limits.
             let in_range = in_range_2d limits x y;
                 in_range_x = select x in_range;
                 in_range_y = select y in_range
             in
             and_then (np_histogram2d in_range_x in_range_y num_bins limits)
               (\<lambda>(hist, xedges, yedges).
                  Inr (G2 (transpose hist), Edges2 yedges xedges))))
         else
           and_then (limits_1d limits x) (\<lambda>limits.
             let in_range = in_range_1d limits x;
                 in_range_x = select x in_range
             in
             and_then (np_histogram x num_bins limits)
               (\<lambda>(hist, edges). Inr (G1 hist, Edges1 edges)))))))"

section \<open>The Occupancy Mapper\<close>

text \<open>
  \<open>spatial_occupancy\<close> calls the accumulator as
  \<^verbatim>\<open>opexebo.general.accumulate_spatial\<close>, the name under which the package exports
  \<^verbatim>\<open>accumulatespatial\<close>, and hands it all of its keyword arguments.

  With \<^verbatim>\<open>debug=True\<close> the function prints. Each printed line is an event that holds
  the numbers given to the format string (for the two lines that print a ratio, the
  numerator and the denominator). A run of the function is the list of events printed,
  together with the exception raised or the value returned.
\<close>

datatype dbg =
    NumTimeStamps nat
      \<comment> \<open>"Number of time stamps: %d"\<close>
  | MaxTimeStamp real
      \<comment> \<open>"Maximum time stamp value: %.2f"\<close>
  | TimeStampDelta real
      \<comment> \<open>"Time stamp delta: %f"\<close>
  | FramesIncluded nat nat
      \<comment> \<open>"Frames included in histogram: %d (%.3f)"\<close>
  | TimeIncluded real real
      \<comment> \<open>"Time length included in histogram: %.2f (%.3f)"\<close>

type_synonym 'a run = "dbg list \<times> (error + 'a)"

definition result :: "'a \<Rightarrow> 'a run" where
  "result x = ([], Inr x)"

definition raise :: "error \<Rightarrow> 'a run" where
  "raise e = ([], Inl e)"

definition lift :: "error + 'a \<Rightarrow> 'a run" where
  "lift r = ([], r)"

definition py_print :: "dbg \<Rightarrow> unit run" where
  "py_print d = ([d], Inr ())"

definition seq :: "'a run \<Rightarrow> ('a \<Rightarrow> 'b run) \<Rightarrow> 'b run" where
  "seq m f =
     (case m of
        (out, Inl e) \<Rightarrow> (out, Inl e)
      | (out, Inr x) \<Rightarrow> (case f x of (out', r) \<Rightarrow> (out @ out', r)))"

definition lower_char :: "char \<Rightarrow> char" where
  "lower_char c =
     (let n = (of_char c :: nat) in if 65 \<le> n \<and> n \<le> 90 then char_of (n + 32) else c)"

definition lower :: "string \<Rightarrow> string" where
  \<comment> \<open>\<^verbatim>\<open>str.lower\<close> on ASCII text\<close>
  "lower s = map lower_char s"

definition in_field_count :: "real list \<Rightarrow> real list \<Rightarrow> real \<Rightarrow> nat" where
  \<comment> \<open>\<^verbatim>\<open>np.sum(np.sqrt(np.power(X,2) + np.power(Y,2)) <= radius)\<close> over the mesh of the
      centres\<close>
  "in_field_count x_centres y_centres radius =
     length (filter (\<lambda>(yc, xc). sqrt (xc ^ 2 + yc ^ 2) \<le> radius)
               (List.product y_centres x_centres))"

definition coverage_of ::
  "string \<Rightarrow> size_val option \<Rightarrow> real \<Rightarrow> nat grid \<Rightarrow> edges \<Rightarrow> error + real" where
  \<comment> \<open>lines 143 to 163 of \<^verbatim>\<open>spatialOccupancy.py\<close>: the branch on the shape tag. A numpy
      division by zero gives an infinity or a NaN, and Python's \<^verbatim>\<open>min(1.0, v)\<close> is 1.0
      for both\<close>
  "coverage_of shape arena_size bin_width occupancy_map bin_edges =
     (if lower shape \<in> set shapes_square then
        if grid_size occupancy_map = 0 then Inl ZeroDivisionError
        else Inr (real (count_nonzero occupancy_map) / real (grid_size occupancy_map))
      else if lower shape \<in> set shapes_circle then
        and_then
          (case bin_edges of
             Edges1 e \<Rightarrow> Inl IndexError
           | Edges2 e0 e1 \<Rightarrow>
               Inr (map (\<lambda>e. e + bin_width / 2) (butlast e0),
                    map (\<lambda>e. e + bin_width / 2) (butlast e1)))
          (\<lambda>(x_centres, y_centres).
        and_then
          (case arena_size of
             Some (Scalar s) \<Rightarrow> Inr (s / 2)
           | Some (Tuple2 a b) \<Rightarrow> Inr (a / 2)
           | None \<Rightarrow> Inl UnboundLocalError)
          (\<lambda>radius.
             let in_field = in_field_count x_centres y_centres radius in
             if in_field = 0 then Inr 1
             else Inr (min 1 (real (count_nonzero occupancy_map) / real in_field))))
      else if lower shape \<in> set shapes_linear then
        Inl (NotImplementedError
               ''Spatial Occupancy does not currently support linear arenas'')
      else
        Inl (NotImplementedError
               (''Arena shape '' @ [CHR 0x27] @ shape @ [CHR 0x27] @ '' not understood'')))"

definition speed_filter :: "ndarray \<Rightarrow> ndarray \<Rightarrow> real \<Rightarrow> error + ndarray" where
  \<comment> \<open>lines 113 to 116 of \<^verbatim>\<open>spatialOccupancy.py\<close>: both rows of the position array are
      read, whatever its dimensionality\<close>
  "speed_filter position speed speed_cutoff =
     (let good = map (\<lambda>s. s > speed_cutoff) (nd_elems speed) in
      and_then (row position 0) (\<lambda>x0.
      let x = select x0 good in
      and_then (row position 1) (\<lambda>y0.
      let y = select y0 good;
          pos = array2 [x, y]
      in Inr pos)))"

definition spatial_occupancy ::
  "(real \<Rightarrow> real \<Rightarrow> real) \<Rightarrow> real list \<Rightarrow> ndarray \<Rightarrow> ndarray \<Rightarrow> kwargs \<Rightarrow>
     (masked_array \<times> real \<times> edges) run" where
  "spatial_occupancy fdiv time position speed kwargs =
     seq (lift (unpack_shape position)) (\<lambda>(dimensionality, num_samples).
     if dimensionality \<notin> {1, 2} then raise (ValueError (PositionColumns dimensionality))
     else if ndim speed \<noteq> 1 then raise (ValueError SpeedColumns)
     else if size_of speed \<noteq> num_samples then raise (ValueError SpeedSamples)
     else if kw_arena_size kwargs = None then
       raise (KeyError (''Arena dimensions not provided. Please provide dimensions using keyword ''
                        @ [CHR 0x27] @ ''arena_size'' @ [CHR 0x27] @ ''.''))
     else
       let speed_cutoff = get (kw_speed_cutoff kwargs) default_speed_cutoff;
           debug = get (kw_debug kwargs) False
       in
       seq (if debug then
              seq (py_print (NumTimeStamps (length time))) (\<lambda>_.
              seq (lift (py_last time)) (\<lambda>t_last.
              seq (py_print (MaxTimeStamp t_last)) (\<lambda>_.
              seq (lift (np_min (np_diff time))) (\<lambda>delta.
              py_print (TimeStampDelta delta)))))
            else result ()) (\<lambda>_.
       seq (lift (speed_filter position speed speed_cutoff)) (\<lambda>pos.
       seq (lift (accumulatespatial fdiv pos kwargs)) (\<lambda>(occupancy_map, bin_edges).
       seq (if debug then
              py_print (FramesIncluded (grid_sum occupancy_map) (length time))
            else result ()) (\<lambda>_.
       seq (lift (np_min (np_diff time))) (\<lambda>frame_duration.
       let occupancy_map_time = map_grid (\<lambda>c. real c * frame_duration) occupancy_map in
       seq (if debug then
              seq (lift (py_last time)) (\<lambda>t_last.
              py_print (TimeIncluded (sum_list (cells occupancy_map_time)) t_last))
            else result ()) (\<lambda>_.
       let masked_map = \<lparr>ma_data = occupancy_map_time,
                         ma_mask = map_grid (\<lambda>c. real c < 0.001) occupancy_map\<rparr>;
           arena_size = kw_arena_size kwargs;
           bin_width = get (kw_bin_width kwargs) default_bin_width;
           shape = get (kw_arena_shape kwargs) default_shape
       in
       seq (lift (coverage_of shape arena_size bin_width occupancy_map bin_edges)) (\<lambda>coverage.
       result (masked_map, coverage, bin_edges)))))))))"

section \<open>What the specification says, for comparison\<close>

text \<open>
  The definitions below follow the specification's words; they are compared with the
  source's behaviour in the theorems.
\<close>

definition spec_mask_by_time :: "real grid \<Rightarrow> bool grid" where
  \<comment> \<open>"Mask is true exactly at bins with time-scaled value < 0.001"\<close>
  "spec_mask_by_time occupancy_map_time = map_grid (\<lambda>v. v < 0.001) occupancy_map_time"

definition spec_min_positive_delta :: "real list \<Rightarrow> error + real" where
  \<comment> \<open>"the minimum positive timestamp delta across the full (unfiltered) time series"\<close>
  "spec_min_positive_delta time = np_min (filter (\<lambda>d. 0 < d) (np_diff time))"

definition spec_time_map :: "real list \<Rightarrow> nat grid \<Rightarrow> error + real grid" where
  \<comment> \<open>"multiply every bin's count by the minimum positive timestamp delta"\<close>
  "spec_time_map time occupancy_map =
     and_then (spec_min_positive_delta time) (\<lambda>d.
       Inr (map_grid (\<lambda>c. real c * d) occupancy_map))"


section \<open>Example inputs\<close>

text \<open>
  In the examples every quotient \<^verbatim>\<open>arena_size / bin_width\<close> is a whole number (10 / 5,
  15 / 5), which float64 division gives exactly: there the float64 division is the exact
  one.
\<close>

definition exact_division :: "real \<Rightarrow> real \<Rightarrow> real" where
  "exact_division a b = a / b"

definition ex_kwargs :: kwargs where
  \<comment> \<open>\<^verbatim>\<open>arena_size=10, bin_width=5\<close>\<close>
  "ex_kwargs = \<lparr>kw_arena_shape = None, kw_arena_size = Some (Scalar 10),
                 kw_bin_width = Some 5, kw_speed_cutoff = None, kw_limits = None,
                 kw_debug = None\<rparr>"

section \<open>Auxiliary facts\<close>

lemma in_field_count_code [code]:
  "in_field_count x_centres y_centres radius =
     length (filter (\<lambda>(yc, xc). 0 \<le> radius \<and> xc ^ 2 + yc ^ 2 \<le> radius ^ 2)
               (List.product y_centres x_centres))"
proof -
  have "sqrt a \<le> r \<longleftrightarrow> 0 \<le> r \<and> a \<le> r ^ 2" if "0 \<le> a" for a r :: real
  proof (cases "0 \<le> r")
    case True
    then have "sqrt (r ^ 2) = r" by simp
    then have "sqrt a \<le> r \<longleftrightarrow> sqrt a \<le> sqrt (r ^ 2)" by simp
    also have "\<dots> \<longleftrightarrow> a \<le> r ^ 2" by (rule real_sqrt_le_iff)
    finally show ?thesis using True by simp
  next
    case False
    have "0 \<le> sqrt a" using that by simp
    with False show ?thesis by linarith
  qed
  then show ?thesis
    unfolding in_field_count_def
    by (intro arg_cong[where f = length] filter_cong) auto
qed

lemma and_then_Inr_iff: "and_then m f = Inr y \<longleftrightarrow> (\<exists>x. m = Inr x \<and> f x = Inr y)"
  by (cases m) (simp_all add: and_then_def)

lemma snd_seq: "snd (seq m f) = and_then (snd m) (\<lambda>x. snd (f x))"
  by (cases m) (auto simp: seq_def and_then_def split: sum.splits prod.splits)

lemma snd_run_simps:
  "snd (lift r) = r" "snd (raise e) = Inl e" "snd (result x) = Inr x"
  "snd (py_print d) = Inr ()"
  by (simp_all add: lift_def raise_def result_def py_print_def)

text \<open>
  The value or exception of a run of \<open>spatial_occupancy\<close>, with the printed events left
  out.
\<close>

lemma snd_spatial_occupancy:
  "snd (spatial_occupancy fdiv time position speed kwargs) =
     and_then (unpack_shape position) (\<lambda>(dimensionality, num_samples).
     if dimensionality \<notin> {1, 2} then Inl (ValueError (PositionColumns dimensionality))
     else if ndim speed \<noteq> 1 then Inl (ValueError SpeedColumns)
     else if size_of speed \<noteq> num_samples then Inl (ValueError SpeedSamples)
     else if kw_arena_size kwargs = None then
       Inl (KeyError (''Arena dimensions not provided. Please provide dimensions using keyword ''
                        @ [CHR 0x27] @ ''arena_size'' @ [CHR 0x27] @ ''.''))
     else
       and_then (if get (kw_debug kwargs) False then
                   and_then (py_last time) (\<lambda>t_last.
                   and_then (np_min (np_diff time)) (\<lambda>delta. Inr ()))
                 else Inr ()) (\<lambda>_.
       and_then (speed_filter position speed
                   (get (kw_speed_cutoff kwargs) default_speed_cutoff)) (\<lambda>pos.
       and_then (accumulatespatial fdiv pos kwargs) (\<lambda>(occupancy_map, bin_edges).
       and_then (np_min (np_diff time)) (\<lambda>frame_duration.
       and_then (if get (kw_debug kwargs) False then
                   and_then (py_last time) (\<lambda>t_last. Inr ())
                 else Inr ()) (\<lambda>_.
       and_then (coverage_of (get (kw_arena_shape kwargs) default_shape) (kw_arena_size kwargs)
                   (get (kw_bin_width kwargs) default_bin_width) occupancy_map bin_edges)
         (\<lambda>coverage.
       Inr (\<lparr>ma_data = map_grid (\<lambda>c. real c * frame_duration) occupancy_map,
             ma_mask = map_grid (\<lambda>c. real c < 0.001) occupancy_map\<rparr>,
            coverage, bin_edges))))))))"
  unfolding spatial_occupancy_def Let_def snd_seq snd_run_simps
  by (auto simp: and_then_def snd_seq snd_run_simps split: sum.splits prod.splits)

lemma spatial_occupancy_success:
  assumes "snd (spatial_occupancy fdiv time position speed kwargs) = Inr (mm, cov, e)"
  shows "\<exists>pos occ fd.
           speed_filter position speed
             (get (kw_speed_cutoff kwargs) default_speed_cutoff) = Inr pos \<and>
           accumulatespatial fdiv pos kwargs = Inr (occ, e) \<and>
           np_min (np_diff time) = Inr fd \<and>
           mm = \<lparr>ma_data = map_grid (\<lambda>c. real c * fd) occ,
                 ma_mask = map_grid (\<lambda>c. real c < 0.001) occ\<rparr> \<and>
           coverage_of (get (kw_arena_shape kwargs) default_shape) (kw_arena_size kwargs)
             (get (kw_bin_width kwargs) default_bin_width) occ e = Inr cov"
  using assms unfolding snd_spatial_occupancy
  by (auto simp: and_then_Inr_iff split: if_splits prod.splits)

lemma and_then_simps: "and_then (Inr x) f = f x" "and_then (Inl e) f = Inl e"
  by (simp_all add: and_then_def)

lemma np_min_Inr: "np_min xs = Inr m \<Longrightarrow> xs \<noteq> [] \<and> m = Min (set xs)"
proof (cases xs)
  case Nil
  assume "np_min xs = Inr m"
  with Nil show ?thesis by (simp add: np_min_def)
next
  case (Cons a r)
  assume "np_min xs = Inr m"
  with Cons have "m = fold min r a" by (simp add: np_min_def)
  with Cons show ?thesis using Min.set_eq_fold [of a r] by simp
qed

lemma count_nonzero_le_size: "count_nonzero h \<le> grid_size h"
  by (simp add: count_nonzero_def grid_size_def)

lemma coverage_of_bounds:
  assumes "coverage_of shape arena_size bin_width occ e = Inr cov"
  shows "0 \<le> cov \<and> cov \<le> 1"
proof -
  consider (square) "lower shape \<in> set shapes_square"
    | (circle) "lower shape \<notin> set shapes_square" "lower shape \<in> set shapes_circle"
    | (other) "lower shape \<notin> set shapes_square" "lower shape \<notin> set shapes_circle"
    by blast
  then show ?thesis
  proof cases
    case square
    with assms have size: "grid_size occ \<noteq> 0"
      and cov: "cov = real (count_nonzero occ) / real (grid_size occ)"
      by (auto simp: coverage_of_def split: if_splits)
    have "real (count_nonzero occ) \<le> real (grid_size occ)"
      using count_nonzero_le_size [of occ] by simp
    with size show ?thesis unfolding cov by (simp add: divide_le_eq_1)
  next
    case circle
    with assms obtain k where
      "cov = 1 \<or> cov = min 1 (real (count_nonzero occ) / real k)"
      by (auto simp: coverage_of_def and_then_Inr_iff Let_def split: if_splits)
    then show ?thesis by (auto simp: min_def)
  next
    case other
    with assms show ?thesis by (simp add: coverage_of_def split: if_splits)
  qed
qed

lemma accumulatespatial_shape_irrelevant:
  "accumulatespatial fdiv pos (kwargs\<lparr>kw_arena_shape := s\<rparr>) = accumulatespatial fdiv pos kwargs"
  by (simp add: accumulatespatial_def Let_def cong: if_cong)

lemma snd_spatial_occupancy_shape:
  assumes "snd (spatial_occupancy fdiv time position speed (kwargs\<lparr>kw_arena_shape := Some s\<rparr>)) = Inr (mm, cov, e)"
  shows "\<exists>occ. snd (spatial_occupancy fdiv time position speed (kwargs\<lparr>kw_arena_shape := Some s'\<rparr>)) =
           and_then (coverage_of s' (kw_arena_size kwargs)
                   (get (kw_bin_width kwargs) default_bin_width) occ e)
         (\<lambda>coverage. Inr (mm, coverage, e))"
  using assms unfolding snd_spatial_occupancy
  by (auto simp: and_then_Inr_iff and_then_simps accumulatespatial_shape_irrelevant get_def
      split: if_splits prod.splits)

section \<open>Input validation of the Occupancy Mapper\<close>

lemma spatial_occupancy_bad_dimensionality:
  assumes "nd_shape position = [d, n]" and "d \<notin> {1, 2}"
  shows "spatial_occupancy fdiv time position speed kwargs =
           ([], Inl (ValueError (PositionColumns d)))"
  using assms
  by (simp add: spatial_occupancy_def seq_def lift_def raise_def unpack_shape_def)

lemma spatial_occupancy_1d_never_returns:
  assumes "nd_shape position = [1, n]"
  shows "snd (spatial_occupancy fdiv time position speed kwargs) \<noteq> Inr r"
  using assms unfolding snd_spatial_occupancy
  by (auto simp: and_then_def unpack_shape_def speed_filter_def row_def Let_def
      split: sum.splits if_splits)

text \<open>
  C1. The claim: a position array of dimensionality 1 (a 1xT array) with matching time and
  speed arrays and a valid configuration makes \<open>spatial_occupancy\<close> succeed with a
  one-dimensional map, and dimensionality 0 or 3 raises an invalid-shape error.
  The second half holds (\<open>spatial_occupancy_bad_dimensionality\<close>). The first half fails
  on the code: the check of line 87 lets dimensionality 1 through, as the docstring
  promises (\<^verbatim>\<open>[x, y] or [x]\<close>), but line 115 reads \<^verbatim>\<open>position[1,:]\<close> whatever the
  dimensionality, so a 1x2 array with two timestamps, two speeds and an arena size raises
  an IndexError (and so does every 1xT array, \<open>spatial_occupancy_1d_never_returns\<close>).
\<close>

theorem spatial_occupancy_1d_raises:
  "spatial_occupancy exact_division [0, 1] (array2 [[1, 2]]) (array1 [1, 1]) ex_kwargs = ([], Inl IndexError)"
  by code_simp

text \<open>
  C7. When the position array is two-dimensional with \<open>n\<close> samples, a speed array that
  is not one-dimensional or whose size is not \<open>n\<close> raises a ValueError (the invalid-shape
  error); when the shape checks pass and \<^verbatim>\<open>arena_size\<close> is absent from the keywords, a
  KeyError (the missing-configuration error) is raised. In each case nothing has been
  printed and nothing is returned.
\<close>

theorem spatial_occupancy_validation_errors:
  assumes "nd_shape position = [d, n]"
  shows "(ndim speed \<noteq> 1 \<or> size_of speed \<noteq> n \<longrightarrow>
            (\<exists>v. spatial_occupancy fdiv time position speed kwargs = ([], Inl (ValueError v))))
       \<and> (d \<in> {1, 2} \<and> ndim speed \<noteq> 1 \<longrightarrow>
            spatial_occupancy fdiv time position speed kwargs = ([], Inl (ValueError SpeedColumns)))
       \<and> (d \<in> {1, 2} \<and> ndim speed = 1 \<and> size_of speed \<noteq> n \<longrightarrow>
            spatial_occupancy fdiv time position speed kwargs = ([], Inl (ValueError SpeedSamples)))
       \<and> (d \<in> {1, 2} \<and> ndim speed = 1 \<and> size_of speed = n
            \<and> kw_arena_size kwargs = None \<longrightarrow>
            spatial_occupancy fdiv time position speed kwargs =
              ([], Inl (KeyError
                 (''Arena dimensions not provided. Please provide dimensions using keyword ''
                  @ [CHR 0x27] @ ''arena_size'' @ [CHR 0x27] @ ''.''))))"
  using assms
  by (auto simp: spatial_occupancy_def seq_def lift_def raise_def unpack_shape_def)

theorem spatial_occupancy_validation_errors_witness:
  "spatial_occupancy exact_division [0, 1, 2] (array2 [[0, 10, 3], [0, 3, 10]]) (array1 [1, 1]) ex_kwargs
     = ([], Inl (ValueError SpeedSamples))
   \<and> spatial_occupancy exact_division [0, 1, 2] (array2 [[0, 10, 3], [0, 3, 10]]) (array1 [1, 1, 1])
       (ex_kwargs\<lparr>kw_arena_size := None\<rparr>)
     = ([], Inl (KeyError
          (''Arena dimensions not provided. Please provide dimensions using keyword ''
           @ [CHR 0x27] @ ''arena_size'' @ [CHR 0x27] @ ''.'')))"
proof -
  have shape: "nd_shape (array2 [[0, 10, 3], [0, 3, 10]]) = [2, 3]"
    by (simp add: array2_def)
  have a: "ndim (array1 [1, 1]) = 1" "size_of (array1 [1, 1]) \<noteq> 3"
    "ndim (array1 [1, 1, 1]) = 1" "size_of (array1 [1, 1, 1]) = 3"
    "kw_arena_size (ex_kwargs\<lparr>kw_arena_size := None\<rparr>) = None"
    by (simp_all add: ndim_def size_of_def array1_def)
  show ?thesis
    using spatial_occupancy_validation_errors
        [OF shape, where speed = "array1 [1, 1]" and time = "[0, 1, 2]"
           and kwargs = ex_kwargs and fdiv = exact_division]
      spatial_occupancy_validation_errors
        [OF shape, where speed = "array1 [1, 1, 1]" and time = "[0, 1, 2]"
           and kwargs = "ex_kwargs\<lparr>kw_arena_size := None\<rparr>" and fdiv = exact_division] a
    by simp
qed

section \<open>Histogram, bins and edges of the Spatial Accumulator\<close>





lemma np_histogram_scalar_raises: "np_histogram a (BScalar b) rng = Inl TypeError"
  by (simp add: np_histogram_def)



lemma validator_is_2d:
  assumes "validatekeyword__arena_size kwv d = Inr (a, is_2d)"
  shows "if is_2d then d = 2 \<and> (\<exists>w h. a = Tuple2 w h) else d = 1 \<and> (\<exists>s. a = Scalar s)"
  using assms
  by (auto simp: validatekeyword__arena_size_def split: option.splits size_val.splits if_splits)

lemma accumulatespatial_returns:
  assumes "accumulatespatial fdiv pos kwargs = Inr (h, e)"
  shows "\<exists>dims n arena_size is_2d num_bins x.
      nd_shape pos = [dims, n] \<and>
      validatekeyword__arena_size (kw_arena_size kwargs) dims = Inr (arena_size, is_2d) \<and>
      np_ceil_div fdiv arena_size (get (kw_bin_width kwargs) default_bin_width) = Inr num_bins \<and>
      row pos 0 = Inr x \<and>
      (if is_2d then
         \<exists>y limits hist xedges yedges.
           row pos 1 = Inr y \<and> limits_2d (kw_limits kwargs) x y = Inr limits \<and>
           np_histogram2d (select x (in_range_2d limits x y)) (select y (in_range_2d limits x y))
             num_bins limits = Inr (hist, xedges, yedges) \<and>
           h = G2 (transpose hist) \<and> e = Edges2 yedges xedges
       else
         \<exists>limits hist edges.
           limits_1d (kw_limits kwargs) x = Inr limits \<and>
           np_histogram x num_bins limits = Inr (hist, edges) \<and>
           h = G1 hist \<and> e = Edges1 edges)"
proof -
  from assms obtain dims n where s: "unpack_shape pos = Inr (dims, n)"
    by (auto simp: accumulatespatial_def and_then_Inr_iff)
  then have shape: "nd_shape pos = [dims, n]"
    by (auto simp: unpack_shape_def split: list.splits)
  from assms s obtain arena_size is_2d num_bins x where
    v: "validatekeyword__arena_size (kw_arena_size kwargs) dims = Inr (arena_size, is_2d)"
    and b: "np_ceil_div fdiv arena_size (get (kw_bin_width kwargs) default_bin_width) = Inr num_bins"
    and x: "row pos 0 = Inr x"
    and rest: "(if is_2d then
           and_then (row pos 1) (\<lambda>y.
           and_then (limits_2d (kw_limits kwargs) x y) (\<lambda>limits.
             and_then (np_histogram2d (select x (in_range_2d limits x y))
                         (select y (in_range_2d limits x y)) num_bins limits)
               (\<lambda>(hist, xedges, yedges).
                  Inr (G2 (transpose hist), Edges2 yedges xedges))))
         else
           and_then (limits_1d (kw_limits kwargs) x) (\<lambda>limits.
             and_then (np_histogram x num_bins limits)
               (\<lambda>(hist, edges). Inr (G1 hist, Edges1 edges)))) = Inr (h, e)"
    by (auto simp: accumulatespatial_def and_then_Inr_iff and_then_simps Let_def split: if_splits)
  show ?thesis
  proof (cases is_2d)
    case True
    with rest show ?thesis using shape v b x
      by (auto simp: and_then_Inr_iff)
  next
    case False
    with rest show ?thesis using shape v b x
      by (auto simp: and_then_Inr_iff)
  qed
qed

text \<open>
  A one-dimensional map is never returned: its bin number is the float of line 81, which
  \<^verbatim>\<open>np.histogram\<close> refuses. Every histogram that the accumulator returns is
  two-dimensional.
\<close>

lemma accumulatespatial_returns_2d:
  assumes "accumulatespatial fdiv pos kwargs = Inr (h, e)"
  shows "\<exists>n a b. nd_shape pos = [2, n] \<and>
           validatekeyword__arena_size (kw_arena_size kwargs) 2 = Inr (Tuple2 a b, True)"
proof -
  from accumulatespatial_returns [OF assms] obtain dims n arena_size is_2d num_bins x
    where shape: "nd_shape pos = [dims, n]"
      and v: "validatekeyword__arena_size (kw_arena_size kwargs) dims = Inr (arena_size, is_2d)"
      and b: "np_ceil_div fdiv arena_size (get (kw_bin_width kwargs) default_bin_width)
                = Inr num_bins"
      and rest: "if is_2d then
         \<exists>y limits hist xedges yedges.
           row pos 1 = Inr y \<and> limits_2d (kw_limits kwargs) x y = Inr limits \<and>
           np_histogram2d (select x (in_range_2d limits x y)) (select y (in_range_2d limits x y))
             num_bins limits = Inr (hist, xedges, yedges) \<and>
           h = G2 (transpose hist) \<and> e = Edges2 yedges xedges
       else
         \<exists>limits hist edges.
           limits_1d (kw_limits kwargs) x = Inr limits \<and>
           np_histogram x num_bins limits = Inr (hist, edges) \<and>
           h = G1 hist \<and> e = Edges1 edges"
    by blast
  show ?thesis
  proof (cases is_2d)
    case True
    with validator_is_2d [OF v] shape v show ?thesis by auto
  next
    case False
    with validator_is_2d [OF v] obtain s where "arena_size = Scalar s" by auto
    with b obtain q where "num_bins = BScalar q"
      by (auto simp: np_ceil_div_def split: if_splits)
    with rest False show ?thesis by (simp add: np_histogram_scalar_raises)
  qed
qed

lemma accumulatespatial_1d_never_returns:
  assumes "nd_shape pos = [1, n]"
  shows "accumulatespatial fdiv pos kwargs \<noteq> Inr r"
proof
  assume "accumulatespatial fdiv pos kwargs = Inr r"
  then obtain h e where "accumulatespatial fdiv pos kwargs = Inr (h, e)" by (cases r) auto
  from accumulatespatial_returns_2d [OF this] assms show False by auto
qed

lemma accumulatespatial_1d_type_error:
  "accumulatespatial exact_division (array2 [[0, 10]])
     (ex_kwargs\<lparr>kw_limits := Some (LTuple [0, 10])\<rparr>) = Inl TypeError"
  by code_simp

text \<open>
  A bin width of zero in two dimensions: the division of line 81 gives infinities and
  raises nothing, so a malformed \<^verbatim>\<open>limits\<close> is reported first (line 97), and with
  well-formed limits the histogram call fails on the infinite bin number.
\<close>

lemma zero_bin_width_2d:
  "accumulatespatial exact_division (array2 [[0, 1], [0, 1]])
     (ex_kwargs\<lparr>kw_bin_width := Some 0, kw_limits := Some (LTuple [0, 10])\<rparr>)
     = Inl (ValueError (LimitsLength2D 2))"
  "accumulatespatial exact_division (array2 [[0, 1], [0, 1]])
     (ex_kwargs\<lparr>kw_bin_width := Some 0, kw_limits := Some (LTuple [0, 10, 0, 10])\<rparr>)
     = Inl OverflowError"
  by code_simp+

















section \<open>Limits given as a numpy array\<close>

text \<open>
  C10. When the limits are a numpy array with more than one element, which the type check
  of line 75 accepts, the call never returns a histogram: it raises. When the array has
  rank 2 with 1 or 2 rows, the arena size is valid and the bin width is not zero, control
  reaches the comparison \<^verbatim>\<open>limits == None\<close>, and the exception is the ValueError of an
  ambiguous truth value.
\<close>

theorem accumulatespatial_ndarray_limits_raise:
  assumes "kw_limits kwargs = Some (LArray xs)" and "length xs > 1"
  shows "(\<exists>e. accumulatespatial fdiv pos kwargs = Inl e)
       \<and> (\<forall>d n r. nd_shape pos = [d, n] \<and> d \<in> {1, 2}
             \<and> validatekeyword__arena_size (kw_arena_size kwargs) d = Inr r
             \<and> get (kw_bin_width kwargs) default_bin_width \<noteq> 0
           \<longrightarrow> accumulatespatial fdiv pos kwargs = Inl (ValueError AmbiguousTruth))"
  using assms
  by (auto simp: accumulatespatial_def and_then_def unpack_shape_def Let_def eq_None_def
        limits_1d_def limits_2d_def np_ceil_div_def row_def validatekeyword__arena_size_def
      split: sum.splits list.splits if_splits option.splits size_val.splits)

theorem accumulatespatial_ndarray_limits_raise_witness:
  "accumulatespatial exact_division (array2 [[0, 10]]) (ex_kwargs\<lparr>kw_limits := Some (LArray [0, 10])\<rparr>)
     = Inl (ValueError AmbiguousTruth)"
proof -
  let ?k = "ex_kwargs\<lparr>kw_limits := Some (LArray [0, 10])\<rparr>"
  have h: "kw_limits ?k = Some (LArray [0, 10])" "length [0, 10 :: real] > 1"
    by simp_all
  have v: "nd_shape (array2 [[0, 10]]) = [1, 2] \<and> (1::nat) \<in> {1, 2}
      \<and> validatekeyword__arena_size (kw_arena_size ?k) 1 = Inr (Scalar 10, False)
      \<and> get (kw_bin_width ?k) default_bin_width \<noteq> 0"
    by (simp add: array2_def ex_kwargs_def validatekeyword__arena_size_def get_def)
  from accumulatespatial_ndarray_limits_raise
         [OF h, where pos = "array2 [[0, 10]]" and fdiv = exact_division] v
  show ?thesis by blast
qed

section \<open>Time scaling, mask and coverage of the Occupancy Mapper\<close>

lemma mask_zero_count: "map_grid (\<lambda>c. real c < 0.001) occ = map_grid (\<lambda>c. c = 0) occ"
proof (rule grid.map_cong)
  show "occ = occ" ..
  fix c :: nat
  show "(real c < 0.001) = (c = 0)" by (cases c) auto
qed

lemma mask_by_time_agrees:
  assumes "(0.001 :: real) \<le> fd"
  shows "spec_mask_by_time (map_grid (\<lambda>c. real c * fd) occ) = map_grid (\<lambda>c. c = 0) occ"
  unfolding spec_mask_by_time_def grid.map_comp
proof (rule grid.map_cong)
  show "occ = occ" ..
  fix c :: nat
  show "((\<lambda>v. v < 0.001) \<circ> (\<lambda>c. real c * fd)) c = (c = 0)"
  proof (cases c)
    case 0 then show ?thesis by simp
  next
    case (Suc k)
    have "0 \<le> fd" using assms by simp
    then have "1 * fd \<le> real (Suc k) * fd" by (intro mult_right_mono) simp_all
    with assms have "\<not> real (Suc k) * fd < 0.001" by linarith
    with Suc show ?thesis by (auto simp only: comp_def nat.distinct)
  qed
qed

lemma np_diff_positive:
  "sorted_wrt (<) time \<Longrightarrow> \<forall>d \<in> set (np_diff time). 0 < d"
  by (induction time rule: np_diff.induct) auto

lemma min_positive_delta_increasing:
  assumes "sorted_wrt (<) time"
  shows "spec_min_positive_delta time = np_min (np_diff time)"
proof -
  have "filter (\<lambda>d. 0 < d) (np_diff time) = np_diff time"
    using np_diff_positive [OF assms] by (simp add: filter_id_conv)
  then show ?thesis by (simp add: spec_min_positive_delta_def)
qed

text \<open>
  C2. The claim: the mask is true exactly at the bins whose time-scaled value (frame count
  times frame duration) is below 0.001. Line 131 compares the frame count
  \<^verbatim>\<open>occupancy_map\<close>, not the time-scaled \<^verbatim>\<open>occupancy_map_time\<close>, with 0.001,
  as the docstring says ("Bins which the animal never visited are masked"). With a frame
  duration of 1/2000 a bin holding one frame has the time-scaled value 0.0005 and is not
  masked.
\<close>

theorem mask_time_scaled_counterexample:
  "snd (spatial_occupancy exact_division [0, 1 / 2000] (array2 [[0, 10], [0, 10]]) (array1 [1, 1]) ex_kwargs)
     = Inr (\<lparr>ma_data = G2 [[1 / 2000, 0], [0, 0]],
             ma_mask = G2 [[False, True], [True, True]]\<rparr>,
            1 / 4, Edges2 [0, 5, 10] [0, 5, 10])
   \<and> spec_mask_by_time (G2 [[1 / 2000, 0], [0, 0]]) = G2 [[True, True], [True, True]]"
  by code_simp

text \<open>
  C2, as amended. In every returned map the mask is true exactly at the bins whose frame
  count is below 0.001, that is, at the bins that hold no frame; the data are the frame
  counts times the frame duration. When the frame duration is at least 0.001 this is the
  mask of the claim.
\<close>

theorem mask_marks_empty_bins:
  assumes "snd (spatial_occupancy fdiv time position speed kwargs) = Inr (masked_map, coverage, bin_edges)"
  shows "\<exists>pos occupancy_map frame_duration.
           speed_filter position speed
             (get (kw_speed_cutoff kwargs) default_speed_cutoff) = Inr pos \<and>
           accumulatespatial fdiv pos kwargs = Inr (occupancy_map, bin_edges) \<and>
           np_min (np_diff time) = Inr frame_duration \<and>
           ma_data masked_map = map_grid (\<lambda>c. real c * frame_duration) occupancy_map \<and>
           ma_mask masked_map = map_grid (\<lambda>c. real c < 0.001) occupancy_map \<and>
           ma_mask masked_map = map_grid (\<lambda>c. c = 0) occupancy_map \<and>
           (0.001 \<le> frame_duration \<longrightarrow>
              ma_mask masked_map = spec_mask_by_time (ma_data masked_map))"
proof -
  from spatial_occupancy_success [OF assms] obtain pos occ fd where
    p: "speed_filter position speed (get (kw_speed_cutoff kwargs) default_speed_cutoff) = Inr pos"
    and a: "accumulatespatial fdiv pos kwargs = Inr (occ, bin_edges)"
    and f: "np_min (np_diff time) = Inr fd"
    and m: "masked_map = \<lparr>ma_data = map_grid (\<lambda>c. real c * fd) occ,
                           ma_mask = map_grid (\<lambda>c. real c < 0.001) occ\<rparr>"
    by blast
  from m have d: "ma_data masked_map = map_grid (\<lambda>c. real c * fd) occ"
    and k: "ma_mask masked_map = map_grid (\<lambda>c. real c < 0.001) occ"
    by simp_all
  from k have z: "ma_mask masked_map = map_grid (\<lambda>c. c = 0) occ"
    by (simp only: mask_zero_count)
  have "ma_mask masked_map = spec_mask_by_time (ma_data masked_map)" if "0.001 \<le> fd"
    using mask_by_time_agrees [OF that, of occ] d z by simp
  with p a f d k z show ?thesis by blast
qed

theorem mask_marks_empty_bins_witness:
  "\<exists>pos occupancy_map.
     speed_filter (array2 [[0, 10, 3], [0, 3, 10]]) (array1 [1, 1, 1])
       (get (kw_speed_cutoff ex_kwargs) default_speed_cutoff) = Inr pos \<and>
     accumulatespatial exact_division pos ex_kwargs = Inr (occupancy_map, Edges2 [0, 5, 10] [0, 5, 10]) \<and>
     G2 [[2, 0], [0, 0]] = map_grid (\<lambda>c. real c * 2) occupancy_map \<and>
     G2 [[False, True], [True, True]] = map_grid (\<lambda>c. c = 0) occupancy_map \<and>
     G2 [[False, True], [True, True]] = spec_mask_by_time (G2 [[2, 0], [0, 0]])"
proof -
  have run: "snd (spatial_occupancy exact_division [0, 2, 5] (array2 [[0, 10, 3], [0, 3, 10]])
                    (array1 [1, 1, 1]) ex_kwargs)
     = Inr (\<lparr>ma_data = G2 [[2, 0], [0, 0]],
             ma_mask = G2 [[False, True], [True, True]]\<rparr>,
            1 / 4, Edges2 [0, 5, 10] [0, 5, 10])"
    by code_simp
  have fd: "np_min (np_diff [0, 2, 5]) = Inr 2"
    by (simp add: np_min_def)
  from mask_marks_empty_bins [OF run] show ?thesis
    unfolding fd by simp blast
qed

text \<open>
  C4. The claim: every bin's count is multiplied by the minimum positive timestamp delta of
  the whole time series. Line 124 takes \<^verbatim>\<open>np.min(np.diff(time))\<close>, the minimum of all
  deltas, positive or not: with the timestamps 0, 1, 1, 2 the frame duration is 0 and the
  map is zero everywhere, where the minimum positive delta is 1.
\<close>

theorem frame_duration_counterexample:
  "snd (spatial_occupancy exact_division [0, 1, 1, 2] (array2 [[0, 10, 1, 2], [0, 10, 1, 2]])
          (array1 [1, 1, 1, 1]) ex_kwargs)
     = Inr (\<lparr>ma_data = G2 [[0, 0], [0, 0]],
             ma_mask = G2 [[False, True], [True, True]]\<rparr>,
            1 / 4, Edges2 [0, 5, 10] [0, 5, 10])
   \<and> speed_filter (array2 [[0, 10, 1, 2], [0, 10, 1, 2]]) (array1 [1, 1, 1, 1]) 0
       = Inr (array2 [[0, 10, 1, 2], [0, 10, 1, 2]])
   \<and> accumulatespatial exact_division (array2 [[0, 10, 1, 2], [0, 10, 1, 2]]) ex_kwargs
       = Inr (G2 [[3, 0], [0, 0]], Edges2 [0, 5, 10] [0, 5, 10])
   \<and> spec_time_map [0, 1, 1, 2] (G2 [[3, 0], [0, 0]]) = Inr (G2 [[3, 0], [0, 0]])
   \<and> G2 [[3, 0], [0, 0]] \<noteq> G2 [[0, 0], [0, 0 :: real]]"
  by code_simp

text \<open>
  C4, as amended. In every returned map each bin's count is multiplied by the minimum of
  the differences of consecutive timestamps of the whole (unfiltered) time series. When the
  timestamps are strictly increasing, that minimum is the minimum positive delta.
\<close>

theorem frame_duration_is_min_delta:
  assumes "snd (spatial_occupancy fdiv time position speed kwargs) = Inr (masked_map, coverage, bin_edges)"
  shows "\<exists>pos occupancy_map frame_duration.
           speed_filter position speed
             (get (kw_speed_cutoff kwargs) default_speed_cutoff) = Inr pos \<and>
           accumulatespatial fdiv pos kwargs = Inr (occupancy_map, bin_edges) \<and>
           np_diff time \<noteq> [] \<and>
           frame_duration = Min (set (np_diff time)) \<and>
           ma_data masked_map = map_grid (\<lambda>c. real c * frame_duration) occupancy_map \<and>
           (sorted_wrt (<) time \<longrightarrow>
              spec_min_positive_delta time = Inr frame_duration \<and>
              spec_time_map time occupancy_map = Inr (ma_data masked_map))"
proof -
  from spatial_occupancy_success [OF assms] obtain pos occ fd where
    p: "speed_filter position speed (get (kw_speed_cutoff kwargs) default_speed_cutoff) = Inr pos"
    and a: "accumulatespatial fdiv pos kwargs = Inr (occ, bin_edges)"
    and f: "np_min (np_diff time) = Inr fd"
    and m: "masked_map = \<lparr>ma_data = map_grid (\<lambda>c. real c * fd) occ,
                           ma_mask = map_grid (\<lambda>c. real c < 0.001) occ\<rparr>"
    by blast
  from m have d: "ma_data masked_map = map_grid (\<lambda>c. real c * fd) occ" by simp
  from np_min_Inr [OF f] have n: "np_diff time \<noteq> []" and e: "fd = Min (set (np_diff time))"
    by simp_all
  have "spec_min_positive_delta time = Inr fd \<and> spec_time_map time occ = Inr (ma_data masked_map)"
    if "sorted_wrt (<) time"
    using min_positive_delta_increasing [OF that] f d by (simp add: spec_time_map_def and_then_def)
  with p a n e d show ?thesis by blast
qed

theorem frame_duration_is_min_delta_witness:
  "\<exists>pos occupancy_map frame_duration.
     speed_filter (array2 [[0, 10, 3], [0, 3, 10]]) (array1 [1, 1, 1])
       (get (kw_speed_cutoff ex_kwargs) default_speed_cutoff) = Inr pos \<and>
     accumulatespatial exact_division pos ex_kwargs = Inr (occupancy_map, Edges2 [0, 5, 10] [0, 5, 10]) \<and>
     frame_duration = Min (set (np_diff [0, 2, 5])) \<and>
     G2 [[2, 0], [0, 0]] = map_grid (\<lambda>c. real c * frame_duration) occupancy_map \<and>
     spec_min_positive_delta [0, 2, 5] = Inr frame_duration \<and>
     spec_time_map [0, 2, 5] occupancy_map = Inr (G2 [[2, 0], [0, 0]])"
proof -
  have run: "snd (spatial_occupancy exact_division [0, 2, 5] (array2 [[0, 10, 3], [0, 3, 10]]) (array1 [1, 1, 1]) ex_kwargs)
     = Inr (\<lparr>ma_data = G2 [[2, 0], [0, 0]],
             ma_mask = G2 [[False, True], [True, True]]\<rparr>,
            1 / 4, Edges2 [0, 5, 10] [0, 5, 10])"
    by code_simp
  have inc: "sorted_wrt (<) [0, 2, 5 :: real]" by simp
  from frame_duration_is_min_delta [OF run] inc show ?thesis by simp
qed

text \<open>
  C5. Whenever \<open>spatial_occupancy\<close> returns, the coverage lies between 0 and 1, both
  included, for the square and rectangle tags and for the circle tags.
\<close>

theorem coverage_in_unit_interval:
  assumes "snd (spatial_occupancy fdiv time position speed kwargs) = Inr (masked_map, coverage, bin_edges)"
  shows "0 \<le> coverage \<and> coverage \<le> 1"
proof -
  from spatial_occupancy_success [OF assms] obtain occ where
    "coverage_of (get (kw_arena_shape kwargs) default_shape) (kw_arena_size kwargs)
       (get (kw_bin_width kwargs) default_bin_width) occ bin_edges = Inr coverage"
    by blast
  then show ?thesis by (rule coverage_of_bounds)
qed

theorem coverage_in_unit_interval_witness:
  "snd (spatial_occupancy exact_division [0, 1, 2] (array2 [[0, 10, 3], [0, 3, 10]]) (array1 [1, 1, 1])
         (ex_kwargs\<lparr>kw_arena_shape := Some ''square''\<rparr>))
     = Inr (\<lparr>ma_data = G2 [[1, 0], [0, 0]], ma_mask = G2 [[False, True], [True, True]]\<rparr>,
            1 / 4, Edges2 [0, 5, 10] [0, 5, 10])
   \<and> (0::real) \<le> 1 / 4 \<and> (1 / 4 :: real) \<le> 1
   \<and> snd (spatial_occupancy exact_division [0, 1, 2] (array2 [[0, 10, 3], [0, 3, 10]]) (array1 [1, 1, 1])
         (ex_kwargs\<lparr>kw_arena_shape := Some ''Circle''\<rparr>))
     = Inr (\<lparr>ma_data = G2 [[1, 0], [0, 0]], ma_mask = G2 [[False, True], [True, True]]\<rparr>,
            1, Edges2 [0, 5, 10] [0, 5, 10])
   \<and> (0::real) \<le> 1 \<and> (1::real) \<le> 1"
proof -
  have sq: "snd (spatial_occupancy exact_division [0, 1, 2] (array2 [[0, 10, 3], [0, 3, 10]]) (array1 [1, 1, 1])
         (ex_kwargs\<lparr>kw_arena_shape := Some ''square''\<rparr>))
     = Inr (\<lparr>ma_data = G2 [[1, 0], [0, 0]], ma_mask = G2 [[False, True], [True, True]]\<rparr>,
            1 / 4, Edges2 [0, 5, 10] [0, 5, 10])"
    by code_simp
  have ci: "snd (spatial_occupancy exact_division [0, 1, 2] (array2 [[0, 10, 3], [0, 3, 10]]) (array1 [1, 1, 1])
         (ex_kwargs\<lparr>kw_arena_shape := Some ''Circle''\<rparr>))
     = Inr (\<lparr>ma_data = G2 [[1, 0], [0, 0]], ma_mask = G2 [[False, True], [True, True]]\<rparr>,
            1, Edges2 [0, 5, 10] [0, 5, 10])"
    by code_simp
  from coverage_in_unit_interval [OF sq] coverage_in_unit_interval [OF ci] sq ci
  show ?thesis by simp
qed

text \<open>
  C6. The claim: a linear shape tag raises the not-implemented error unconditionally,
  whatever the other inputs, and a tag outside the vocabulary raises a not-implemented
  error that names the tag. The shape is examined last (line 143), after the validation,
  the accumulator and the time scaling, so any error of those steps is raised instead:
  with a linear tag and no arena size the call raises the KeyError of line 94.
\<close>

theorem unsupported_shape_counterexample:
  "snd (spatial_occupancy exact_division [0, 1, 2] (array2 [[0, 10, 3], [0, 3, 10]]) (array1 [1, 1, 1])
         (ex_kwargs\<lparr>kw_arena_shape := Some ''linear'', kw_arena_size := None\<rparr>))
     = Inl (KeyError
          (''Arena dimensions not provided. Please provide dimensions using keyword ''
           @ [CHR 0x27] @ ''arena_size'' @ [CHR 0x27] @ ''.''))
   \<and> snd (spatial_occupancy exact_division [0, 1, 2] (array2 [[0, 10, 3], [0, 3, 10]]) (array1 [1, 1, 1])
         (ex_kwargs\<lparr>kw_arena_shape := Some ''linear'', kw_arena_size := None\<rparr>))
     \<noteq> Inl (NotImplementedError ''Spatial Occupancy does not currently support linear arenas'')"
  by code_simp

text \<open>
  C6, as amended. For inputs on which the call returns with a square tag (every step
  before the branch on the shape succeeds), a linear tag raises the not-implemented error
  of line 160, and a tag outside the three vocabularies raises the not-implemented error
  whose message holds the tag as given.
\<close>

theorem unsupported_shape_raises:
  assumes "snd (spatial_occupancy fdiv time position speed (kwargs\<lparr>kw_arena_shape := Some ''square''\<rparr>))
             = Inr r"
  shows "(lower shape \<in> set shapes_linear \<longrightarrow>
            snd (spatial_occupancy fdiv time position speed (kwargs\<lparr>kw_arena_shape := Some shape\<rparr>))
              = Inl (NotImplementedError
                       ''Spatial Occupancy does not currently support linear arenas''))
       \<and> (lower shape \<notin> set shapes_square \<union> set shapes_circle \<union> set shapes_linear \<longrightarrow>
            snd (spatial_occupancy fdiv time position speed (kwargs\<lparr>kw_arena_shape := Some shape\<rparr>))
              = Inl (NotImplementedError
                       (''Arena shape '' @ [CHR 0x27] @ shape @ [CHR 0x27] @ '' not understood'')))"
proof -
  obtain mm cov e where r: "r = (mm, cov, e)" by (cases r)
  from snd_spatial_occupancy_shape [OF assms [unfolded r], where s' = shape] obtain occ where
    run: "snd (spatial_occupancy fdiv time position speed (kwargs\<lparr>kw_arena_shape := Some shape\<rparr>)) =
           and_then (coverage_of shape (kw_arena_size kwargs)
                   (get (kw_bin_width kwargs) default_bin_width) occ e)
         (\<lambda>coverage. Inr (mm, coverage, e))"
    by blast
  have disj: "set shapes_linear \<inter> (set shapes_square \<union> set shapes_circle) = {}"
    by (simp add: shapes_linear_def shapes_square_def shapes_circle_def)
  show ?thesis
    unfolding run using disj by (auto simp: coverage_of_def and_then_def)
qed

theorem unsupported_shape_raises_witness:
  "snd (spatial_occupancy exact_division [0, 1, 2] (array2 [[0, 10, 3], [0, 3, 10]]) (array1 [1, 1, 1])
         (ex_kwargs\<lparr>kw_arena_shape := Some ''Linear''\<rparr>))
     = Inl (NotImplementedError ''Spatial Occupancy does not currently support linear arenas'')
   \<and> snd (spatial_occupancy exact_division [0, 1, 2] (array2 [[0, 10, 3], [0, 3, 10]]) (array1 [1, 1, 1])
         (ex_kwargs\<lparr>kw_arena_shape := Some ''Hexagon''\<rparr>))
     = Inl (NotImplementedError (''Arena shape '' @ [CHR 0x27] @ ''Hexagon'' @ [CHR 0x27] @ '' not understood''))"
proof -
  have run: "snd (spatial_occupancy exact_division [0, 1, 2] (array2 [[0, 10, 3], [0, 3, 10]]) (array1 [1, 1, 1])
         (ex_kwargs\<lparr>kw_arena_shape := Some ''square''\<rparr>))
     = Inr (\<lparr>ma_data = G2 [[1, 0], [0, 0]], ma_mask = G2 [[False, True], [True, True]]\<rparr>,
            1 / 4, Edges2 [0, 5, 10] [0, 5, 10])"
    by code_simp
  have l: "lower ''Linear'' \<in> set shapes_linear" by code_simp
  have h: "lower ''Hexagon'' \<notin> set shapes_square \<union> set shapes_circle \<union> set shapes_linear"
    by code_simp
  from unsupported_shape_raises [OF run, of "''Linear''"] unsupported_shape_raises [OF run, of "''Hexagon''"] l h
  show ?thesis by simp
qed

end
